theory Spec2Isabelle
  imports Complex_Main "HOL-Library.Sublist"
begin

section \<open>Python values and strings\<close>

text \<open>
  The extractor of \<^verbatim>\<open>social_media_extractor.py\<close> passes its results around as Python
  dictionaries with string keys. The values the fetchers store are \<^verbatim>\<open>None\<close>, strings and
  integers. A dictionary is a partial map from keys to values; a key that is absent maps
  to \<open>None\<close> of the option type, which is different from a key bound to \<open>PNone\<close>.
  Strings are byte strings: \<open>lower\<close> is Python's \<^verbatim>\<open>str.lower\<close> on ASCII letters and
  leaves every other byte as it is (code points beyond ASCII are outside this model).
\<close>

datatype pyval = PNone | PStr string | PInt int

type_synonym pydict = "string \<rightharpoonup> pyval"

definition lower_char :: "char \<Rightarrow> char" where
  "lower_char c =
     (case map_of (zip ''ABCDEFGHIJKLMNOPQRSTUVWXYZ'' ''abcdefghijklmnopqrstuvwxyz'') c of
        Some d \<Rightarrow> d
      | None \<Rightarrow> c)"

definition lower :: "string \<Rightarrow> string" where
  "lower s = map lower_char s"

text \<open>\<open>py_in needle hay\<close> is the Python test \<^verbatim>\<open>needle in hay\<close> on strings.\<close>

fun py_in :: "string \<Rightarrow> string \<Rightarrow> bool" where
  "py_in needle [] = (needle = [])"
| "py_in needle (c # cs) = (prefix needle (c # cs) \<or> py_in needle cs)"

text \<open>\<open>str_int\<close> is \<^verbatim>\<open>str(n)\<close> for an integer, as an f-string formats it.\<close>

fun str_nat :: "nat \<Rightarrow> string" where
  "str_nat n =
     (if n < 10 then [''0123456789'' ! n]
      else str_nat (n div 10) @ [''0123456789'' ! (n mod 10)])"

declare str_nat.simps [simp del]

definition str_int :: "int \<Rightarrow> string" where
  "str_int i = (if i < 0 then CHR ''-'' # str_nat (nat (- i)) else str_nat (nat i))"

section \<open>Platform detection\<close>

text \<open>
  \<^verbatim>\<open>detect_platform\<close>, lines 233 to 248: the URL is lowercased and the domain fragments are
  tried in the order of the \<^verbatim>\<open>if\<close>/\<^verbatim>\<open>elif\<close> chain.
\<close>

definition detect_platform :: "string \<Rightarrow> string" where
  "detect_platform url =
     (let url_lower = lower url in
      if py_in ''twitter.com'' url_lower \<or> py_in ''x.com'' url_lower then ''x''
      else if py_in ''youtube.com'' url_lower \<or> py_in ''youtu.be'' url_lower then ''youtube''
      else if py_in ''tiktok.com'' url_lower then ''tiktok''
      else if py_in ''stockbit.com'' url_lower then ''stockbit''
      else if py_in ''instagram.com'' url_lower then ''instagram''
      else if py_in ''linkedin.com'' url_lower then ''linkedin''
      else ''unknown'')"




section \<open>Rate limiting configuration\<close>

text \<open>
  \<^verbatim>\<open>RATE_LIMIT_CONFIG\<close>, lines 33 to 64. The lookup
  \<^verbatim>\<open>RATE_LIMIT_CONFIG.get(platform, RATE_LIMIT_CONFIG['default'])\<close> is \<open>config_get\<close>.
\<close>

record rate_config =
  requests_per_minute :: nat
  delay_between_requests :: real
  batch_size :: nat
  max_retries :: int

definition default_config :: rate_config where
  "default_config =
     \<lparr>requests_per_minute = 60, delay_between_requests = 1.0, batch_size = 40, max_retries = 2\<rparr>"

definition RATE_LIMIT_CONFIG :: "string \<rightharpoonup> rate_config" where
  "RATE_LIMIT_CONFIG = map_of
     [(''x'', \<lparr>requests_per_minute = 50, delay_between_requests = 1.2,
                batch_size = 25, max_retries = 2\<rparr>),
      (''instagram'', \<lparr>requests_per_minute = 30, delay_between_requests = 2.5,
                batch_size = 15, max_retries = 3\<rparr>),
      (''youtube'', \<lparr>requests_per_minute = 100, delay_between_requests = 0.5,
                batch_size = 50, max_retries = 2\<rparr>),
      (''tiktok'', \<lparr>requests_per_minute = 40, delay_between_requests = 1.5,
                batch_size = 30, max_retries = 2\<rparr>),
      (''default'', default_config)]"

definition config_get :: "string \<Rightarrow> rate_config" where
  "config_get platform =
     (case RATE_LIMIT_CONFIG platform of Some c \<Rightarrow> c | None \<Rightarrow> default_config)"

section \<open>The world the extractor runs in\<close>

text \<open>
  The state that the code reads and writes: the wall clock that \<^verbatim>\<open>time.time()\<close> returns
  (a real number, the float idealised), the number of values drawn from
  \<^verbatim>\<open>random.random()\<close>, the durations handed to \<^verbatim>\<open>time.sleep\<close> so far, the dictionary
  \<^verbatim>\<open>self.request_timestamps\<close>, and the state of whatever the fetch collaborators talk to.
  The field \<open>calls\<close> is a ghost counter of collaborator invocations; the code has no such
  counter, it exists to state how often a collaborator was invoked.

  The environment fixes what the code cannot decide: the value of the \<open>k\<close>-th draw of
  \<^verbatim>\<open>random.random()\<close> and by how much the \<open>k\<close>-th \<^verbatim>\<open>time.sleep\<close> oversleeps. Python
  guarantees a draw in \<open>[0, 1)\<close> and a sleep of at least the requested duration; theorems
  that depend on either say so as a hypothesis on the environment. With draws in range
  every duration the code sleeps for is positive, so the error that \<^verbatim>\<open>time.sleep\<close>
  raises on a negative duration is not modelled; neither is the time a collaborator takes.
\<close>

record 's world =
  clock :: real
  draws :: nat
  slept :: "real list"
  request_timestamps :: "string \<rightharpoonup> real list"
  calls :: nat
  ext :: 's

record env =
  rand_src :: "nat \<Rightarrow> real"
  lag_src :: "nat \<Rightarrow> real"


text \<open>The dictionary that \<^verbatim>\<open>__init__\<close> builds, lines 83 to 90.\<close>

definition initial_request_timestamps :: "string \<rightharpoonup> real list" where
  "initial_request_timestamps = map_of
     [(''x'', []), (''instagram'', []), (''youtube'', []), (''tiktok'', []),
      (''stockbit'', []), (''linkedin'', [])]"

definition time_sleep :: "env \<Rightarrow> real \<Rightarrow> 's world \<Rightarrow> 's world" where
  "time_sleep env d w =
     w\<lparr>clock := clock w + d + lag_src env (length (slept w)), slept := slept w @ [d]\<rparr>"

definition random_random :: "env \<Rightarrow> 's world \<Rightarrow> real \<times> 's world" where
  "random_random env w = (rand_src env (draws w), w\<lparr>draws := Suc (draws w)\<rparr>)"

section \<open>Exceptions\<close>

text \<open>
  What \<^verbatim>\<open>except Exception as e\<close> can catch, with \<^verbatim>\<open>str(e)\<close>. A \<^verbatim>\<open>KeyError\<close> prints the
  \<^verbatim>\<open>repr\<close> of its key, which for a key without quotes, backslashes or control characters
  is the key between single quotes. \<open>Exception\<close> stands for any other exception, with
  its message.
\<close>

datatype exn = KeyError string | AttributeError string | Exception string

definition py_repr :: "string \<Rightarrow> string" where
  "py_repr k = [CHR 0x27] @ k @ [CHR 0x27]"

fun str_exn :: "exn \<Rightarrow> string" where
  "str_exn (KeyError k) = py_repr k"
| "str_exn (AttributeError m) = m"
| "str_exn (Exception m) = m"

section \<open>The rate limiter\<close>

text \<open>
  \<^verbatim>\<open>rate_limit_delay\<close>, lines 100 to 122, in two parts. \<open>admit_gate\<close> is lines 102 to 115:
  it reads the clock, drops the timestamps that are 60 seconds old or older and, when
  the ceiling is reached, sleeps. It returns the clock value it read, the timestamps it
  kept and the world at the moment the caller may proceed. Indexing the dictionary with
  a platform it has no key for raises \<^verbatim>\<open>KeyError\<close> before anything is written.
  \<open>kept ! 0\<close> is only evaluated when \<open>kept\<close> holds at least \<open>requests_per_minute\<close>
  entries, and every ceiling in the table is positive.
  \<open>rate_limit_delay\<close> then appends the clock value read at entry (lines 117 and 118) and
  sleeps for the jittered delay (lines 120 to 122).
\<close>

definition admit_gate ::
  "env \<Rightarrow> string \<Rightarrow> 's world \<Rightarrow> exn + (real \<times> real list \<times> 's world)" where
  "admit_gate env platform w =
     (let config = config_get platform;
          now = clock w
      in case request_timestamps w platform of
           None \<Rightarrow> Inl (KeyError platform)
         | Some tss \<Rightarrow>
             let kept = filter (\<lambda>ts. now - ts < 60) tss;
                 w1 = w\<lparr>request_timestamps := (request_timestamps w)(platform \<mapsto> kept)\<rparr>
             in if requests_per_minute config \<le> length kept
                then Inr (now, kept, time_sleep env (60 - (now - kept ! 0) + 1) w1)
                else Inr (now, kept, w1))"

definition rate_limit_delay :: "env \<Rightarrow> string \<Rightarrow> 's world \<Rightarrow> exn + 's world" where
  "rate_limit_delay env platform w =
     (case admit_gate env platform w of
        Inl e \<Rightarrow> Inl e
      | Inr (now, kept, w2) \<Rightarrow>
          let w3 = w2\<lparr>request_timestamps := (request_timestamps w2)(platform \<mapsto> kept @ [now])\<rparr>;
              (u, w4) = random_random env w3;
              delay = delay_between_requests (config_get platform) * (0.8 + 0.4 * u)
          in Inr (time_sleep env delay w4))"


section \<open>The retrying executor\<close>

text \<open>
  A fetch collaborator takes the URL and the state of the outside world and either
  raises or returns a dictionary.
\<close>

type_synonym 's api = "string \<Rightarrow> 's \<Rightarrow> (exn + pydict) \<times> 's"

definition quota_keywords :: "string list" where
  "quota_keywords = [''rate limit'', ''too many requests'', ''quota'', ''limit exceeded'']"

definition has_keyword :: "string \<Rightarrow> bool" where
  "has_keyword s = list_ex (\<lambda>keyword. py_in keyword s) quota_keywords"

fun truthy :: "pyval \<Rightarrow> bool" where
  "truthy PNone = False"
| "truthy (PStr s) = (s \<noteq> [])"
| "truthy (PInt i) = (i \<noteq> 0)"

definition dict_get :: "pydict \<Rightarrow> string \<Rightarrow> pyval" where
  "dict_get d k = (case d k of None \<Rightarrow> PNone | Some v \<Rightarrow> v)"

text \<open>
  The test of lines 135 and 136. \<^verbatim>\<open>result['error'].lower()\<close> is evaluated only when
  \<^verbatim>\<open>result.get('error')\<close> is truthy; on a truthy integer it raises \<^verbatim>\<open>AttributeError\<close>.
\<close>

definition rate_limited :: "pydict \<Rightarrow> exn + bool" where
  "rate_limited result =
     (if truthy (dict_get result ''error'') then
        (case dict_get result ''error'' of
           PStr s \<Rightarrow> Inr (has_keyword (lower s))
         | _ \<Rightarrow> Inl (AttributeError
                  ([CHR 0x27] @ ''int'' @ [CHR 0x27] @ '' object has no attribute ''
                   @ [CHR 0x27] @ ''lower'' @ [CHR 0x27])))
      else Inr False)"

definition error_dict :: "string \<Rightarrow> string \<Rightarrow> string \<Rightarrow> pydict" where
  "error_dict url msg platform =
     map_of [(''url'', PStr url), (''error'', PStr msg), (''platform'', PStr platform)]"

datatype 'a control = Continue | Return 'a

text \<open>Lines 138 to 140 and 149 to 151: the wait before the next attempt.\<close>

definition backoff :: "env \<Rightarrow> nat \<Rightarrow> 's world \<Rightarrow> 's world" where
  "backoff env attempt w =
     (let (u, w1) = random_random env w;
          wait_time = 2 ^ attempt + u * 2
      in time_sleep env wait_time w1)"

text \<open>The handler of lines 145 to 157.\<close>

definition handle_exception ::
  "env \<Rightarrow> string \<Rightarrow> string \<Rightarrow> int \<Rightarrow> nat \<Rightarrow> exn \<Rightarrow> 's world \<Rightarrow> pydict control \<times> 's world" where
  "handle_exception env platform url max_retries' attempt e w =
     (let error_str = lower (str_exn e) in
      if has_keyword error_str then
        if int attempt < max_retries' then (Continue, backoff env attempt w)
        else (Return (error_dict url
                (''Rate limit exceeded after '' @ str_int max_retries' @ '' retries'') platform), w)
      else (Return (error_dict url (str_exn e) platform), w))"

text \<open>The body of the \<^verbatim>\<open>for\<close> loop, lines 130 to 157, for one value of \<^verbatim>\<open>attempt\<close>.\<close>

definition attempt_body ::
  "env \<Rightarrow> string \<Rightarrow> 's api \<Rightarrow> string \<Rightarrow> int \<Rightarrow> nat \<Rightarrow> 's world \<Rightarrow> pydict control \<times> 's world" where
  "attempt_body env platform api_function url max_retries' attempt w =
     (case rate_limit_delay env platform w of
        Inl e \<Rightarrow> handle_exception env platform url max_retries' attempt e w
      | Inr w1 \<Rightarrow>
          (case api_function url (ext w1) of
             (Inl e, s') \<Rightarrow>
               handle_exception env platform url max_retries' attempt e
                 (w1\<lparr>calls := Suc (calls w1), ext := s'\<rparr>)
           | (Inr result, s') \<Rightarrow>
               let w2 = w1\<lparr>calls := Suc (calls w1), ext := s'\<rparr> in
               (case rate_limited result of
                  Inl e \<Rightarrow> handle_exception env platform url max_retries' attempt e w2
                | Inr True \<Rightarrow>
                    if int attempt < max_retries' then (Continue, backoff env attempt w2)
                    else (Return result, w2)
                | Inr False \<Rightarrow> (Return result, w2))))"

text \<open>
  The loop \<^verbatim>\<open>for attempt in range(max_retries + 1)\<close> runs over the list of attempt numbers;
  line 159 is reached when the list is exhausted.
\<close>

fun attempts_loop ::
  "env \<Rightarrow> string \<Rightarrow> 's api \<Rightarrow> string \<Rightarrow> int \<Rightarrow> nat list \<Rightarrow> 's world \<Rightarrow> pydict \<times> 's world" where
  "attempts_loop env platform api_function url max_retries' [] w =
     (error_dict url (''Max retries ('' @ str_int max_retries' @ '') exceeded'') platform, w)"
| "attempts_loop env platform api_function url max_retries' (attempt # rest) w =
     (case attempt_body env platform api_function url max_retries' attempt w of
        (Continue, w') \<Rightarrow> attempts_loop env platform api_function url max_retries' rest w'
      | (Return result, w') \<Rightarrow> (result, w'))"

text \<open>Lines 126 and 127: the ceiling is the argument, or the platform's when there is none.\<close>

definition resolve_max_retries :: "string \<Rightarrow> int option \<Rightarrow> int" where
  "resolve_max_retries platform max_retries_arg =
     (case max_retries_arg of
        None \<Rightarrow> max_retries (config_get platform)
      | Some n \<Rightarrow> n)"

definition safe_api_call ::
  "env \<Rightarrow> string \<Rightarrow> 's api \<Rightarrow> string \<Rightarrow> int option \<Rightarrow> 's world \<Rightarrow> pydict \<times> 's world" where
  "safe_api_call env platform api_function url max_retries_arg w =
     (let max_retries' = resolve_max_retries platform max_retries_arg
      in attempts_loop env platform api_function url max_retries'
           [0..<nat (max_retries' + 1)] w)"

text \<open>
  The outcomes a collaborator produces on successive invocations for one URL, from a
  given state of the outside world.
\<close>

definition ext_after :: "'s api \<Rightarrow> string \<Rightarrow> nat \<Rightarrow> 's \<Rightarrow> 's" where
  "ext_after api_function url k s = ((\<lambda>s. snd (api_function url s)) ^^ k) s"

definition outcome :: "'s api \<Rightarrow> string \<Rightarrow> 's \<Rightarrow> nat \<Rightarrow> exn + pydict" where
  "outcome api_function url s k = fst (api_function url (ext_after api_function url k s))"

text \<open>
  An outcome is a quota failure when the executor classifies it as one: a raised
  exception whose message contains a marker, or a returned dictionary whose error does.
\<close>

fun quota_failure :: "exn + pydict \<Rightarrow> bool" where
  "quota_failure (Inl e) = has_keyword (lower (str_exn e))"
| "quota_failure (Inr result) = (rate_limited result = Inr True)"

section \<open>The platform fetchers\<close>

text \<open>
  Each fetcher wraps its whole body in \<^verbatim>\<open>try\<close> / \<^verbatim>\<open>except Exception\<close>, so it returns a
  dictionary whatever happens. What the body does on the network (the API request, the
  scrape, the headless browser, and the parsing of what came back) is an oracle of the
  record \<open>externals\<close>: it either raises, or yields the values of the metric fields; for
  X and YouTube it may also yield nothing (no tweet returned, no video item).
  \<open>DRIVERS\<close> is the set of keys of the global dictionary of that name, filled by
  \<^verbatim>\<open>setup_credentials\<close>; a key is missing when the setup of that platform failed.
\<close>

type_synonym fields = "string \<Rightarrow> pyval"

record 's externals =
  DRIVERS :: "string set"
  tweet_details :: "string \<Rightarrow> 's \<Rightarrow> (exn + fields option) \<times> 's"
  youtube_videos :: "string \<Rightarrow> 's \<Rightarrow> (exn + fields option) \<times> 's"
  scrape_tiktok_video :: "string \<Rightarrow> 's \<Rightarrow> (exn + fields) \<times> 's"
  extract_stockbit_data :: "string \<Rightarrow> 's \<Rightarrow> (exn + fields) \<times> 's"
  instagram_post :: "string \<Rightarrow> 's \<Rightarrow> (exn + fields) \<times> 's"
  linkedin_page :: "string \<Rightarrow> 's \<Rightarrow> (exn + fields) \<times> 's"

type_synonym 's fetcher = "string \<Rightarrow> 's \<Rightarrow> pydict \<times> 's"

text \<open>\<^verbatim>\<open>fetch_x_metrics\<close>, lines 266 to 306.\<close>

definition fetch_x_metrics :: "'s externals \<Rightarrow> 's fetcher" where
  "fetch_x_metrics E url s =
     (if ''x_api'' \<notin> DRIVERS E then (map_of [(''error'', PStr ''X/Twitter not configured'')], s)
      else
        (case tweet_details E url s of
           (Inl e, s') \<Rightarrow> (error_dict url (str_exn e) ''x'', s')
         | (Inr None, s') \<Rightarrow> (map_of [(''error'', PStr ''Tweet not returned'')], s')
         | (Inr (Some t), s') \<Rightarrow>
             (map_of
                [(''date'', t ''date''), (''url'', PStr url), (''author'', t ''author''),
                 (''content'', t ''content''), (''followers'', t ''followers''),
                 (''views'', t ''views''), (''likes'', t ''likes''),
                 (''comments'', t ''comments''), (''saves'', t ''saves''),
                 (''shares'', PNone), (''reposts'', t ''reposts''),
                 (''platform'', PStr ''x'')], s')))"

text \<open>\<^verbatim>\<open>fetch_youtube_metrics\<close>, lines 331 to 378.\<close>

definition fetch_youtube_metrics :: "'s externals \<Rightarrow> 's fetcher" where
  "fetch_youtube_metrics E url s =
     (if ''youtube_api'' \<notin> DRIVERS E then (map_of [(''error'', PStr ''YouTube not configured'')], s)
      else
        (case youtube_videos E url s of
           (Inl e, s') \<Rightarrow> (error_dict url (str_exn e) ''youtube'', s')
         | (Inr None, s') \<Rightarrow> (map_of [(''error'', PStr ''Video not found'')], s')
         | (Inr (Some t), s') \<Rightarrow>
             (map_of
                [(''date'', t ''date''), (''url'', PStr url), (''author'', t ''author''),
                 (''content'', t ''content''), (''followers'', t ''followers''),
                 (''views'', t ''views''), (''likes'', t ''likes''),
                 (''comments'', t ''comments''), (''saves'', PNone),
                 (''shares'', PNone), (''reposts'', PNone),
                 (''platform'', PStr ''youtube'')], s')))"

text \<open>\<^verbatim>\<open>fetch_tiktok_metrics\<close>, lines 605 to 623.\<close>

definition fetch_tiktok_metrics :: "'s externals \<Rightarrow> 's fetcher" where
  "fetch_tiktok_metrics E url s =
     (case scrape_tiktok_video E url s of
        (Inl e, s') \<Rightarrow> (error_dict url (str_exn e) ''tiktok'', s')
      | (Inr t, s') \<Rightarrow>
          (map_of
             [(''date'', t ''date''), (''url'', PStr url), (''author'', t ''author''),
              (''content'', t ''content''), (''followers'', t ''followers''),
              (''views'', t ''views''), (''likes'', t ''likes''),
              (''comments'', t ''comments''), (''saves'', t ''saves''),
              (''shares'', t ''shares''), (''reposts'', PNone),
              (''platform'', PStr ''tiktok'')], s'))"

text \<open>\<^verbatim>\<open>fetch_stockbit_metrics\<close>, lines 811 to 832.\<close>

definition fetch_stockbit_metrics :: "'s externals \<Rightarrow> 's fetcher" where
  "fetch_stockbit_metrics E url s =
     (case extract_stockbit_data E url s of
        (Inl e, s') \<Rightarrow> (error_dict url (str_exn e) ''stockbit'', s')
      | (Inr t, s') \<Rightarrow>
          (map_of
             [(''date'', t ''date''), (''url'', PStr url), (''author'', t ''author''),
              (''content'', t ''content''), (''followers'', t ''followers''),
              (''views'', PNone), (''likes'', t ''likes''),
              (''comments'', t ''comments''), (''saves'', PNone),
              (''shares'', PNone), (''reposts'', PNone),
              (''platform'', PStr ''stockbit'')], s'))"

text \<open>\<^verbatim>\<open>fetch_instagram_metrics\<close>, lines 843 to 875.\<close>

definition fetch_instagram_metrics :: "'s externals \<Rightarrow> 's fetcher" where
  "fetch_instagram_metrics E url s =
     (if ''instagram_loader'' \<notin> DRIVERS E
      then (map_of [(''error'', PStr ''Instagram not configured'')], s)
      else
        (case instagram_post E url s of
           (Inl e, s') \<Rightarrow> (error_dict url (str_exn e) ''instagram'', s')
         | (Inr t, s') \<Rightarrow>
             (map_of
                [(''date'', t ''date''), (''url'', PStr url), (''author'', t ''author''),
                 (''content'', t ''content''), (''followers'', t ''followers''),
                 (''views'', t ''views''), (''likes'', t ''likes''),
                 (''comments'', t ''comments''), (''saves'', PNone),
                 (''shares'', PNone), (''reposts'', PNone),
                 (''platform'', PStr ''instagram'')], s')))"

text \<open>\<^verbatim>\<open>fetch_linkedin_metrics\<close>, lines 893 to 974.\<close>

definition fetch_linkedin_metrics :: "'s externals \<Rightarrow> 's fetcher" where
  "fetch_linkedin_metrics E url s =
     (case linkedin_page E url s of
        (Inl e, s') \<Rightarrow> (error_dict url (str_exn e) ''linkedin'', s')
      | (Inr t, s') \<Rightarrow>
          (map_of
             [(''date'', PNone), (''url'', PStr url), (''author'', t ''author''),
              (''content'', t ''content''), (''followers'', t ''followers''),
              (''views'', PNone), (''likes'', t ''likes''),
              (''comments'', t ''comments''), (''saves'', PNone),
              (''shares'', PNone), (''reposts'', PNone),
              (''platform'', PStr ''linkedin'')], s'))"

section \<open>The batch orchestrator\<close>

text \<open>A fetcher in the place of \<^verbatim>\<open>api_function\<close>: it always returns.\<close>

definition as_api :: "'s fetcher \<Rightarrow> 's api" where
  "as_api f url s = (case f url s of (result, s') \<Rightarrow> (Inr result, s'))"

text \<open>The dispatch table of \<^verbatim>\<open>process_links\<close>, lines 1011 to 1018.\<close>

definition processors ::
  "env \<Rightarrow> 's externals \<Rightarrow> string \<rightharpoonup> (string \<Rightarrow> 's world \<Rightarrow> pydict \<times> 's world)" where
  "processors env E = map_of
     [(''x'', \<lambda>url. safe_api_call env ''x'' (as_api (fetch_x_metrics E)) url None),
      (''youtube'', \<lambda>url. safe_api_call env ''youtube'' (as_api (fetch_youtube_metrics E)) url None),
      (''tiktok'', \<lambda>url. safe_api_call env ''tiktok'' (as_api (fetch_tiktok_metrics E)) url None),
      (''stockbit'', \<lambda>url. safe_api_call env ''stockbit'' (as_api (fetch_stockbit_metrics E)) url None),
      (''instagram'', \<lambda>url. safe_api_call env ''instagram'' (as_api (fetch_instagram_metrics E)) url None),
      (''linkedin'', \<lambda>url. safe_api_call env ''linkedin'' (as_api (fetch_linkedin_metrics E)) url None)]"

definition unsupported_record :: "string \<Rightarrow> pydict" where
  "unsupported_record url = map_of
     [(''date'', PNone), (''url'', PStr url), (''author'', PNone), (''content'', PNone),
      (''followers'', PNone), (''views'', PNone), (''likes'', PNone), (''comments'', PNone),
      (''saves'', PNone), (''shares'', PNone), (''reposts'', PNone),
      (''platform'', PStr ''unknown''), (''error'', PStr ''Unsupported platform'')]"

text \<open>The body of the loop of lines 1027 to 1038, for one URL.\<close>

definition process_url :: "env \<Rightarrow> 's externals \<Rightarrow> string \<Rightarrow> 's world \<Rightarrow> pydict \<times> 's world" where
  "process_url env E url w =
     (let platform = detect_platform url in
      case processors env E platform of
        Some processor \<Rightarrow> processor url w
      | None \<Rightarrow> (unsupported_record url, w))"

text \<open>The loop of lines 1027 to 1042; \<open>all_results\<close> grows by \<^verbatim>\<open>append\<close>.\<close>

fun links_loop ::
  "env \<Rightarrow> 's externals \<Rightarrow> string list \<Rightarrow> pydict list \<Rightarrow> 's world \<Rightarrow> pydict list \<times> 's world" where
  "links_loop env E [] all_results w = (all_results, w)"
| "links_loop env E (url # rest) all_results w =
     (case process_url env E url w of
        (result, w') \<Rightarrow> links_loop env E rest (all_results @ [result]) w')"

text \<open>
  Lines 1047 to 1062. The data frame built from the list of dictionaries has one row per
  dictionary; after the missing standard columns are added and the columns are selected,
  each row has exactly the thirteen standard columns, with a null where the dictionary
  had no such key. \<open>PNone\<close> stands for both of pandas' nulls (\<^verbatim>\<open>None\<close> and \<^verbatim>\<open>NaN\<close>); the
  conversion of integer columns that hold a null to floating point is not modelled.
\<close>

definition standard_columns :: "string list" where
  "standard_columns =
     [''date'', ''url'', ''author'', ''content'', ''followers'', ''views'', ''likes'',
      ''comments'', ''saves'', ''shares'', ''reposts'', ''platform'', ''error'']"

definition to_record :: "pydict \<Rightarrow> pydict" where
  "to_record r = (\<lambda>col. if col \<in> set standard_columns then Some (dict_get r col) else None)"

text \<open>
  Lines 1064 to 1073. \<^verbatim>\<open>value_counts\<close> counts the values of a column that are not null;
  \<^verbatim>\<open>notna().sum()\<close> counts the entries of a column that are not null.
\<close>

definition notna :: "pyval \<Rightarrow> bool" where
  "notna v = (v \<noteq> PNone)"

fun value_counts :: "pyval list \<Rightarrow> (pyval \<rightharpoonup> nat)" where
  "value_counts [] = Map.empty"
| "value_counts (v # vs) =
     (let counts = value_counts vs in
      if notna v then counts(v \<mapsto> (case counts v of None \<Rightarrow> 1 | Some n \<Rightarrow> Suc n))
      else counts)"

fun notna_sum :: "pyval list \<Rightarrow> nat" where
  "notna_sum [] = 0"
| "notna_sum (v # vs) = (if notna v then Suc (notna_sum vs) else notna_sum vs)"

record platform_stat =
  total :: nat
  success :: int
  errors :: nat

definition platform_error_stats :: "pydict list \<Rightarrow> (pyval \<rightharpoonup> platform_stat)" where
  "platform_error_stats df =
     (let platform_stats = value_counts (map (\<lambda>r. dict_get r ''platform'') df) in
      (\<lambda>platform.
         case platform_stats platform of
           None \<Rightarrow> None
         | Some n \<Rightarrow>
             let error_count =
                   notna_sum (map (\<lambda>r. dict_get r ''error'')
                     (filter (\<lambda>r. dict_get r ''platform'' = platform) df))
             in Some \<lparr>total = n, success = int n - int error_count, errors = error_count\<rparr>))"

record summary =
  total_processed :: nat
  platform_stats :: "pyval \<rightharpoonup> platform_stat"
  rate_limiting_applied :: bool

datatype response = ErrorResponse string | BatchResponse "pydict list" summary

text \<open>
  \<^verbatim>\<open>process_links\<close>, lines 986 to 1082. The grouping of lines 993 to 1004 and the progress
  bar only print.
\<close>

definition process_links ::
  "env \<Rightarrow> 's externals \<Rightarrow> string list \<Rightarrow> 's world \<Rightarrow> response \<times> 's world" where
  "process_links env E links w =
     (if links = [] then (ErrorResponse ''No links provided'', w)
      else
        (case links_loop env E links [] w of
           (all_results, w') \<Rightarrow>
             let df = map to_record all_results;
                 results_data = df
             in (BatchResponse results_data
                   \<lparr>total_processed = length df,
                    platform_stats = platform_error_stats df,
                    rate_limiting_applied = True\<rparr>, w')))"

section \<open>The single-URL endpoint\<close>




section \<open>Properties to state, and concrete instances\<close>

text \<open>
  A returned dictionary carries no quota error when its error is absent, null, or a string
  without a marker.
\<close>

definition returns_no_quota_error :: "pydict \<Rightarrow> bool" where
  "returns_no_quota_error result =
     (case result ''error'' of
        None \<Rightarrow> True
      | Some PNone \<Rightarrow> True
      | Some (PStr msg) \<Rightarrow> \<not> has_keyword (lower msg)
      | Some (PInt i) \<Rightarrow> False)"

text \<open>
  The timestamps of every platform are in ascending order and none lies in the future.
  This holds of the dictionary that \<^verbatim>\<open>__init__\<close> builds and every admission keeps it.
\<close>

definition timestamps_ordered :: "'s world \<Rightarrow> bool" where
  "timestamps_ordered w =
     (\<forall>p tss. request_timestamps w p = Some tss \<longrightarrow> sorted tss \<and> (\<forall>t\<in>set tss. t \<le> clock w))"

text \<open>
  A collaborator that follows a script: its \<open>k\<close>-th invocation yields \<open>script k\<close>, and the
  state of the outside world is the number of invocations so far.
\<close>

definition scripted :: "(nat \<Rightarrow> exn + pydict) \<Rightarrow> nat api" where
  "scripted script url n = (script n, Suc n)"

text \<open>
  The world right after \<^verbatim>\<open>__init__\<close> at clock 0, an environment whose draws are all one
  half and whose sleeps are exact, and a world in which \<open>x\<close> has had fifty admissions in
  the last fifty seconds.
\<close>

definition initial_world :: "'s \<Rightarrow> 's world" where
  "initial_world s =
     \<lparr>clock = 0, draws = 0, slept = [], request_timestamps = initial_request_timestamps,
      calls = 0, ext = s\<rparr>"

definition fixed_env :: env where
  "fixed_env = \<lparr>rand_src = (\<lambda>k. 1 / 2), lag_src = (\<lambda>k. 0)\<rparr>"


definition post_url :: string where
  "post_url = ''https://x.com/u/status/123''"

definition success_record :: pydict where
  "success_record = map_of [(''url'', PStr post_url), (''likes'', PInt 7), (''platform'', PStr ''x'')]"



definition limited_script :: "nat \<Rightarrow> exn + pydict" where
  "limited_script k = Inr (error_dict post_url ''Rate limit exceeded'' ''x'')"

text \<open>The ten metric columns: the standard columns but \<open>url\<close>, \<open>platform\<close> and \<open>error\<close>.\<close>

definition metric_columns :: "string list" where
  "metric_columns =
     [''date'', ''author'', ''content'', ''followers'', ''views'', ''likes'', ''comments'',
      ''saves'', ''shares'', ''reposts'']"

text \<open>
  An installation in which no platform was configured and every scrape is refused, and one
  in which TikTok answers the first two requests with HTTP 429 and the third with data.
\<close>

definition unconfigured :: "nat externals" where
  "unconfigured =
     \<lparr>DRIVERS = {},
      tweet_details = (\<lambda>url s. (Inr None, s)),
      youtube_videos = (\<lambda>url s. (Inr None, s)),
      scrape_tiktok_video = (\<lambda>url s. (Inl (Exception ''HTTP 403''), s)),
      extract_stockbit_data = (\<lambda>url s. (Inl (Exception ''HTTP 403''), s)),
      instagram_post = (\<lambda>url s. (Inl (Exception ''HTTP 403''), s)),
      linkedin_page = (\<lambda>url s. (Inl (Exception ''HTTP 403''), s))\<rparr>"

definition unknown_url :: string where
  "unknown_url = ''https://unknown.example/1''"





section \<open>Facts about strings\<close>



section \<open>Facts about the rate limiter\<close>

lemma time_sleep_frame [simp]:
  "ext (time_sleep env d w) = ext w"
  "calls (time_sleep env d w) = calls w"
  "request_timestamps (time_sleep env d w) = request_timestamps w"
  "draws (time_sleep env d w) = draws w"
  by (simp_all add: time_sleep_def)

lemma backoff_frame [simp]:
  "ext (backoff env attempt w) = ext w"
  "calls (backoff env attempt w) = calls w"
  "request_timestamps (backoff env attempt w) = request_timestamps w"
  by (simp_all add: backoff_def random_random_def Let_def)




lemma initial_ordered:
  "request_timestamps w = initial_request_timestamps \<Longrightarrow> timestamps_ordered w"
  by (auto simp add: timestamps_ordered_def initial_request_timestamps_def split: if_splits)







lemma rate_limit_delay_known:
  assumes "request_timestamps w platform = Some tss"
  shows "\<exists>w1. rate_limit_delay env platform w = Inr w1 \<and> ext w1 = ext w \<and> calls w1 = calls w
           \<and> request_timestamps w1 platform \<noteq> None"
  using assms
  by (simp add: rate_limit_delay_def admit_gate_def random_random_def Let_def)



section \<open>Facts about the retrying executor\<close>

lemma attempt_body_continue:
  assumes "request_timestamps w platform \<noteq> None"
      and "quota_failure (fst (api url (ext w)))"
      and "int attempt < mr"
  shows "\<exists>w'. attempt_body env platform api url mr attempt w = (Continue, w')
           \<and> ext w' = snd (api url (ext w)) \<and> calls w' = Suc (calls w)
           \<and> request_timestamps w' platform \<noteq> None"
proof -
  from assms(1) obtain tss where "request_timestamps w platform = Some tss" by blast
  from rate_limit_delay_known [OF this, of env] obtain w1 where
    w1: "rate_limit_delay env platform w = Inr w1" "ext w1 = ext w" "calls w1 = calls w"
        "request_timestamps w1 platform \<noteq> None"
    by blast
  obtain out s' where o: "api url (ext w) = (out, s')" by (cases "api url (ext w)")
  show ?thesis
  proof (cases out)
    case (Inl e)
    with assms(2,3) o w1 show ?thesis
      by (simp add: attempt_body_def handle_exception_def)
  next
    case (Inr result)
    with assms(2,3) o w1 show ?thesis
      by (simp add: attempt_body_def)
  qed
qed

lemma attempt_body_return:
  assumes "request_timestamps w platform \<noteq> None"
      and "api url (ext w) = (Inr result, s')"
      and "rate_limited result = Inr False \<or> (rate_limited result = Inr True \<and> \<not> int attempt < mr)"
  shows "\<exists>w'. attempt_body env platform api url mr attempt w = (Return result, w')
           \<and> ext w' = s' \<and> calls w' = Suc (calls w)"
proof -
  from assms(1) obtain tss where "request_timestamps w platform = Some tss" by blast
  from rate_limit_delay_known [OF this, of env] obtain w1 where
    w1: "rate_limit_delay env platform w = Inr w1" "ext w1 = ext w" "calls w1 = calls w"
    by blast
  with assms(2,3) show ?thesis
    by (auto simp add: attempt_body_def)
qed

lemma attempt_body_raise:
  assumes "request_timestamps w platform \<noteq> None"
      and "api url (ext w) = (Inl e, s')"
  shows "\<exists>w'. attempt_body env platform api url mr attempt w =
            (if has_keyword (lower (str_exn e)) then
               if int attempt < mr then Continue
               else Return (error_dict url
                      (''Rate limit exceeded after '' @ str_int mr @ '' retries'') platform)
             else Return (error_dict url (str_exn e) platform), w')
           \<and> ext w' = s' \<and> calls w' = Suc (calls w)"
proof -
  from assms(1) obtain tss where "request_timestamps w platform = Some tss" by blast
  from rate_limit_delay_known [OF this, of env] obtain w1 where
    w1: "rate_limit_delay env platform w = Inr w1" "ext w1 = ext w" "calls w1 = calls w"
    by blast
  with assms(2) show ?thesis
    by (auto simp add: attempt_body_def handle_exception_def)
qed

lemma ext_after_Suc: "ext_after api url (Suc k) s = ext_after api url k (snd (api url s))"
  unfolding ext_after_def by (simp only: funpow_Suc_right o_apply)

lemma outcome_Suc: "outcome api url s (Suc k) = outcome api url (snd (api url s)) k"
  by (simp add: outcome_def ext_after_Suc)

lemma outcome_0: "outcome api url s 0 = fst (api url s)"
  by (simp add: outcome_def ext_after_def)

lemma attempts_loop_retry:
  assumes "request_timestamps w platform \<noteq> None"
      and "\<forall>j<k. quota_failure (outcome api url (ext w) j)"
      and "int (a + k) \<le> mr"
  shows "\<exists>w'. attempts_loop env platform api url mr ([a..<a + k] @ rest) w
             = attempts_loop env platform api url mr rest w'
           \<and> ext w' = ext_after api url k (ext w) \<and> calls w' = calls w + k
           \<and> request_timestamps w' platform \<noteq> None"
  using assms
proof (induction k arbitrary: a w)
  case 0
  then show ?case by (intro exI [of _ w]) (simp add: ext_after_def)
next
  case (Suc k)
  have q0: "quota_failure (fst (api url (ext w)))"
    using Suc.prems(2) by (auto simp add: outcome_0 dest: spec [of _ 0])
  have lt: "int a < mr" using Suc.prems(3) by simp
  from attempt_body_continue [where api = api and url = url and env = env, OF Suc.prems(1) q0 lt]
  obtain w1 where
    w1: "attempt_body env platform api url mr a w = (Continue, w1)"
        "ext w1 = snd (api url (ext w))" "calls w1 = Suc (calls w)"
        "request_timestamps w1 platform \<noteq> None"
    by blast
  have rest_q: "\<forall>j<k. quota_failure (outcome api url (ext w1) j)"
    using Suc.prems(2) w1(2) by (auto simp add: outcome_Suc [symmetric])
  have bound: "int (Suc a + k) \<le> mr" using Suc.prems(3) by simp
  from Suc.IH [OF w1(4) rest_q bound] obtain w' where
    w': "attempts_loop env platform api url mr ([Suc a..<Suc a + k] @ rest) w1
           = attempts_loop env platform api url mr rest w'"
        "ext w' = ext_after api url k (ext w1)" "calls w' = calls w1 + k"
        "request_timestamps w' platform \<noteq> None"
    by blast
  have "[a..<a + Suc k] = a # [Suc a..<Suc a + k]"
    by (simp add: upt_conv_Cons)
  with w1 w' show ?case
    by (auto simp add: ext_after_Suc)
qed


lemma rate_limited_no_quota_error:
  "returns_no_quota_error result \<Longrightarrow> rate_limited result = Inr False"
  by (auto simp add: returns_no_quota_error_def rate_limited_def dict_get_def
      split: option.splits pyval.splits)

lemma config_max_retries_nonneg: "0 \<le> max_retries (config_get platform)"
  by (simp add: config_get_def RATE_LIMIT_CONFIG_def default_config_def)

lemma resolve_max_retries_nonneg:
  "\<forall>n. max_retries_arg = Some n \<longrightarrow> 0 \<le> n \<Longrightarrow> 0 \<le> resolve_max_retries platform max_retries_arg"
  by (cases max_retries_arg) (simp_all add: resolve_max_retries_def config_max_retries_nonneg)

lemma attempts_upt: "0 \<le> mr \<Longrightarrow> [0..<nat (mr + 1)] = [0..<0 + nat mr] @ [nat mr]"
  by (simp add: nat_add_distrib)

lemma safe_api_call_after_retries:
  assumes "request_timestamps w platform \<noteq> None"
      and "0 \<le> resolve_max_retries platform arg"
      and "\<forall>j<nat (resolve_max_retries platform arg). quota_failure (outcome api url (ext w) j)"
  shows "\<exists>w'. safe_api_call env platform api url arg w
             = attempts_loop env platform api url (resolve_max_retries platform arg)
                 [nat (resolve_max_retries platform arg)] w'
           \<and> ext w' = ext_after api url (nat (resolve_max_retries platform arg)) (ext w)
           \<and> calls w' = calls w + nat (resolve_max_retries platform arg)
           \<and> request_timestamps w' platform \<noteq> None"
proof -
  let ?mr = "resolve_max_retries platform arg"
  have "int (0 + nat ?mr) \<le> ?mr" using assms(2) by simp
  from attempts_loop_retry [where api = api and url = url and env = env and rest = "[nat ?mr]",
      OF assms(1) assms(3) this]
  show ?thesis
    by (simp add: safe_api_call_def Let_def attempts_upt [OF assms(2)])
qed

lemma safe_api_call_last_attempt_returned:
  assumes "request_timestamps w platform \<noteq> None"
      and "0 \<le> resolve_max_retries platform arg"
      and "\<forall>j<nat (resolve_max_retries platform arg). quota_failure (outcome api url (ext w) j)"
      and "outcome api url (ext w) (nat (resolve_max_retries platform arg)) = Inr result"
      and "rate_limited result = Inr False \<or> rate_limited result = Inr True"
  shows "fst (safe_api_call env platform api url arg w) = result
         \<and> calls (snd (safe_api_call env platform api url arg w))
             = calls w + nat (resolve_max_retries platform arg) + 1"
proof -
  let ?mr = "resolve_max_retries platform arg"
  from safe_api_call_after_retries [OF assms(1,2,3), of env] obtain w' where
    w': "safe_api_call env platform api url arg w
           = attempts_loop env platform api url ?mr [nat ?mr] w'"
        "ext w' = ext_after api url (nat ?mr) (ext w)"
        "calls w' = calls w + nat ?mr"
        "request_timestamps w' platform \<noteq> None"
    by blast
  obtain s' where s': "api url (ext w') = (Inr result, s')"
    using assms(4) w'(2) by (cases "api url (ext w')") (simp add: outcome_def)
  have "rate_limited result = Inr False
        \<or> (rate_limited result = Inr True \<and> \<not> int (nat ?mr) < ?mr)"
    using assms(5) by auto
  from attempt_body_return [where api = api and url = url and env = env, OF w'(4) s' this]
  obtain w'' where
    "attempt_body env platform api url ?mr (nat ?mr) w' = (Return result, w'')"
    "calls w'' = Suc (calls w')"
    by blast
  with w' show ?thesis by simp
qed

lemma safe_api_call_last_attempt_raised:
  assumes "request_timestamps w platform \<noteq> None"
      and "0 \<le> resolve_max_retries platform arg"
      and "\<forall>j<nat (resolve_max_retries platform arg). quota_failure (outcome api url (ext w) j)"
      and "outcome api url (ext w) (nat (resolve_max_retries platform arg)) = Inl e"
  shows "fst (safe_api_call env platform api url arg w)
           = (if has_keyword (lower (str_exn e))
              then error_dict url (''Rate limit exceeded after ''
                     @ str_int (resolve_max_retries platform arg) @ '' retries'') platform
              else error_dict url (str_exn e) platform)
         \<and> calls (snd (safe_api_call env platform api url arg w))
             = calls w + nat (resolve_max_retries platform arg) + 1"
proof -
  let ?mr = "resolve_max_retries platform arg"
  from safe_api_call_after_retries [OF assms(1,2,3), of env] obtain w' where
    w': "safe_api_call env platform api url arg w
           = attempts_loop env platform api url ?mr [nat ?mr] w'"
        "ext w' = ext_after api url (nat ?mr) (ext w)"
        "calls w' = calls w + nat ?mr"
        "request_timestamps w' platform \<noteq> None"
    by blast
  obtain s' where s': "api url (ext w') = (Inl e, s')"
    using assms(4) w'(2) by (cases "api url (ext w')") (simp add: outcome_def)
  from attempt_body_raise [where api = api and url = url and env = env and mr = ?mr
      and attempt = "nat ?mr", OF w'(4) s']
  obtain w'' where
    "attempt_body env platform api url ?mr (nat ?mr) w' =
       (if has_keyword (lower (str_exn e)) then
          if int (nat ?mr) < ?mr then Continue
          else Return (error_dict url
                 (''Rate limit exceeded after '' @ str_int ?mr @ '' retries'') platform)
        else Return (error_dict url (str_exn e) platform), w'')"
    "calls w'' = Suc (calls w')"
    by blast
  with w' assms(2) show ?thesis by simp
qed

lemma safe_api_call_first_attempt:
  assumes "request_timestamps w platform \<noteq> None"
      and "0 \<le> resolve_max_retries platform arg"
      and "\<not> quota_failure (fst (api url (ext w)))"
      and "\<forall>result. fst (api url (ext w)) = Inr result \<longrightarrow> rate_limited result = Inr False"
  shows "fst (safe_api_call env platform api url arg w)
           = (case fst (api url (ext w)) of
                Inl e \<Rightarrow> error_dict url (str_exn e) platform
              | Inr result \<Rightarrow> result)
         \<and> calls (snd (safe_api_call env platform api url arg w)) = Suc (calls w)
         \<and> ext (snd (safe_api_call env platform api url arg w)) = snd (api url (ext w))"
proof -
  let ?mr = "resolve_max_retries platform arg"
  have upt: "[0..<nat (?mr + 1)] = 0 # [1..<nat (?mr + 1)]"
    using assms(2) by (simp add: upt_conv_Cons)
  obtain out s' where o: "api url (ext w) = (out, s')" by (cases "api url (ext w)")
  show ?thesis
  proof (cases out)
    case (Inl e)
    with o assms(3) have nq: "\<not> has_keyword (lower (str_exn e))" by simp
    from attempt_body_raise [where api = api and url = url and env = env and mr = ?mr
        and attempt = 0, OF assms(1)] o Inl
    obtain w' where
      "attempt_body env platform api url ?mr 0 w =
         (if has_keyword (lower (str_exn e)) then
            if int 0 < ?mr then Continue
            else Return (error_dict url
                   (''Rate limit exceeded after '' @ str_int ?mr @ '' retries'') platform)
          else Return (error_dict url (str_exn e) platform), w')"
      "ext w' = s'" "calls w' = Suc (calls w)"
      by blast
    with nq o Inl show ?thesis
      by (simp add: safe_api_call_def Let_def upt)
  next
    case (Inr result)
    with o assms(4) have "rate_limited result = Inr False" by simp
    then have "rate_limited result = Inr False
        \<or> (rate_limited result = Inr True \<and> \<not> int 0 < ?mr)" by simp
    from attempt_body_return [where api = api and url = url and env = env,
        OF assms(1) _ this] o Inr
    obtain w' where
      "attempt_body env platform api url ?mr 0 w = (Return result, w')"
      "ext w' = s'" "calls w' = Suc (calls w)"
      by blast
    with o Inr show ?thesis
      by (simp add: safe_api_call_def Let_def upt)
  qed
qed

lemma ext_after_scripted: "ext_after (scripted script) url k n = n + k"
  by (induction k arbitrary: n) (simp_all add: ext_after_Suc scripted_def, simp add: ext_after_def)

lemma outcome_scripted: "outcome (scripted script) url n k = script (n + k)"
  by (simp add: outcome_def ext_after_scripted scripted_def)
lemma safe_api_call_exhausted_raised:
  assumes "request_timestamps w platform \<noteq> None"
      and "\<forall>n. max_retries_arg = Some n \<longrightarrow> 0 \<le> n"
      and "\<forall>k\<le>nat (resolve_max_retries platform max_retries_arg).
             \<exists>e. outcome api_function url (ext w) k = Inl e \<and> has_keyword (lower (str_exn e))"
  shows "fst (safe_api_call env platform api_function url max_retries_arg w)
           = error_dict url (''Rate limit exceeded after ''
               @ str_int (resolve_max_retries platform max_retries_arg) @ '' retries'') platform"
proof -
  let ?n = "nat (resolve_max_retries platform max_retries_arg)"
  from assms(3) obtain e where
    e: "outcome api_function url (ext w) ?n = Inl e" "has_keyword (lower (str_exn e))"
    by blast
  have q: "\<forall>j<?n. quota_failure (outcome api_function url (ext w) j)"
  proof (intro allI impI)
    fix j assume "j < ?n"
    with assms(3) obtain ej where "outcome api_function url (ext w) j = Inl ej"
      "has_keyword (lower (str_exn ej))"
      by (meson less_imp_le)
    then show "quota_failure (outcome api_function url (ext w) j)" by simp
  qed
  from safe_api_call_last_attempt_raised [where api = api_function and url = url and env = env,
      OF assms(1) resolve_max_retries_nonneg [OF assms(2)] q e(1)] e(2)
  show ?thesis by simp
qed
lemma initial_world_known: "request_timestamps (initial_world s) ''x'' \<noteq> None"
  by (simp add: initial_world_def initial_request_timestamps_def)


lemma keyword_examples:
  "has_keyword (lower ''Rate limit exceeded'')"
  "has_keyword (lower ''429 Too Many Requests'')"
  "\<not> has_keyword (lower ''Tweet not found'')"
  by (simp_all add: has_keyword_def quota_keywords_def lower_def lower_char_def)


section \<open>Facts about the batch orchestrator\<close>

lemma value_counts_count:
  "value_counts vs v = (if v \<noteq> PNone \<and> v \<in> set vs then Some (count_list vs v) else None)"
  by (induction vs) (auto simp add: notna_def Let_def)

lemma notna_sum_length: "notna_sum vs = length (filter (\<lambda>v. v \<noteq> PNone) vs)"
  by (induction vs) (simp_all add: notna_def)

lemma count_list_map_filter:
  "count_list (map f xs) v = length (filter (\<lambda>x. f x = v) xs)"
  by (induction xs) simp_all

lemma platform_error_stats_counts:
  "platform_error_stats df platform =
     (if platform \<noteq> PNone \<and> platform \<in> set (map (\<lambda>r. dict_get r ''platform'') df)
      then Some \<lparr>total = length (filter (\<lambda>r. dict_get r ''platform'' = platform) df),
                 success = int (length (filter (\<lambda>r. dict_get r ''platform'' = platform) df))
                   - int (length (filter (\<lambda>r. dict_get r ''platform'' = platform
                                               \<and> dict_get r ''error'' \<noteq> PNone) df)),
                 errors = length (filter (\<lambda>r. dict_get r ''platform'' = platform
                                               \<and> dict_get r ''error'' \<noteq> PNone) df)\<rparr>
      else None)"
  by (simp add: platform_error_stats_def Let_def value_counts_count notna_sum_length
      count_list_map_filter filter_map o_def conj_commute del: set_map)

lemma links_loop_acc:
  "links_loop env E links acc w =
     (acc @ fst (links_loop env E links [] w), snd (links_loop env E links [] w))"
proof (induction links arbitrary: acc w)
  case Nil
  then show ?case by simp
next
  case (Cons url rest)
  obtain result w1 where p: "process_url env E url w = (result, w1)"
    by (cases "process_url env E url w")
  from Cons.IH [of "acc @ [result]" w1] Cons.IH [of "[result]" w1] p
  show ?case by simp
qed

lemma links_loop_Cons:
  "links_loop env E (url # rest) [] w =
     (fst (process_url env E url w)
        # fst (links_loop env E rest [] (snd (process_url env E url w))),
      snd (links_loop env E rest [] (snd (process_url env E url w))))"
proof -
  obtain result w1 where p: "process_url env E url w = (result, w1)"
    by (cases "process_url env E url w")
  with links_loop_acc [of env E rest "[result]" w1] show ?thesis by simp
qed

lemma links_loop_length: "length (fst (links_loop env E links [] w)) = length links"
  by (induction links arbitrary: w) (simp_all add: links_loop_Cons del: links_loop.simps(2))

lemma links_loop_append:
  "links_loop env E (pre @ post) [] w =
     (fst (links_loop env E pre [] w)
        @ fst (links_loop env E post [] (snd (links_loop env E pre [] w))),
      snd (links_loop env E post [] (snd (links_loop env E pre [] w))))"
  by (induction pre arbitrary: w) (simp_all add: links_loop_Cons del: links_loop.simps(2))

lemma process_links_results:
  "links \<noteq> [] \<Longrightarrow>
   process_links env E links w =
     (BatchResponse (map to_record (fst (links_loop env E links [] w)))
        \<lparr>total_processed = length links,
         platform_stats = platform_error_stats (map to_record (fst (links_loop env E links [] w))),
         rate_limiting_applied = True\<rparr>,
      snd (links_loop env E links [] w))"
  using links_loop_length [of env E links w]
  by (auto simp add: process_links_def Let_def split: prod.splits)

lemma process_url_unknown:
  "detect_platform url = ''unknown'' \<Longrightarrow> process_url env E url w = (unsupported_record url, w)"
  by (simp add: process_url_def processors_def)

lemma to_record_unsupported: "to_record (unsupported_record url) = unsupported_record url"
  by (rule ext) (simp add: to_record_def unsupported_record_def standard_columns_def dict_get_def)

lemma process_url_x_unconfigured:
  assumes "''x_api'' \<notin> DRIVERS E" and "detect_platform url = ''x''"
      and "request_timestamps w ''x'' \<noteq> None"
  shows "fst (process_url env E url w) = map_of [(''error'', PStr ''X/Twitter not configured'')]"
proof -
  let ?r = "map_of [(''error'', PStr ''X/Twitter not configured'')] :: pydict"
  have a: "as_api (fetch_x_metrics E) url (ext w) = (Inr ?r, ext w)"
    using assms(1) by (simp add: as_api_def fetch_x_metrics_def)
  have k: "\<not> has_keyword (lower ''X/Twitter not configured'')"
    by (simp add: has_keyword_def quota_keywords_def lower_def lower_char_def)
  have r: "rate_limited ?r = Inr False"
    using k by (simp add: rate_limited_def dict_get_def)
  have n: "0 \<le> resolve_max_retries ''x'' None"
    by (rule resolve_max_retries_nonneg) simp
  from safe_api_call_first_attempt [where api = "as_api (fetch_x_metrics E)" and url = url
      and env = env, OF assms(3) n] a r
  have "fst (safe_api_call env ''x'' (as_api (fetch_x_metrics E)) url None w) = ?r"
    by simp
  with assms(2) show ?thesis
    by (simp add: process_url_def processors_def)
qed

lemma post_url_x: "detect_platform post_url = ''x''"
  by (simp add: detect_platform_def post_url_def lower_def lower_char_def)

lemma unknown_url_unknown: "detect_platform unknown_url = ''unknown''"
  by (simp add: detect_platform_def unknown_url_def lower_def lower_char_def)

lemma unconfigured_batch:
  "process_links fixed_env unconfigured [post_url, unknown_url] (initial_world 0) =
     (BatchResponse
        [to_record (map_of [(''error'', PStr ''X/Twitter not configured'')]),
         unsupported_record unknown_url]
        \<lparr>total_processed = 2,
         platform_stats = platform_error_stats
           [to_record (map_of [(''error'', PStr ''X/Twitter not configured'')]),
            unsupported_record unknown_url],
         rate_limiting_applied = True\<rparr>,
      snd (process_url fixed_env unconfigured post_url (initial_world 0)))"
proof -
  have d: "''x_api'' \<notin> DRIVERS unconfigured" by (simp add: unconfigured_def)
  note x = process_url_x_unconfigured [OF d post_url_x initial_world_known, of fixed_env 0]
  note u = process_url_unknown [OF unknown_url_unknown]
  show ?thesis
    by (simp add: process_links_results links_loop_Cons x u to_record_unsupported
        del: links_loop.simps(2))
qed







section \<open>The platform classifier\<close>



section \<open>The rate limiter's window\<close>



section \<open>Retries of the executor\<close>




section \<open>Results that pass through the executor\<close>

text \<open>
  Claim C10. A dictionary that the collaborator returns on the first attempt, whose error
  is absent, null, or a string without a quota marker, is what the executor returns: the
  same dictionary, after one invocation.
\<close>

theorem safe_api_call_passes_result_through:
  assumes "request_timestamps w platform \<noteq> None"
      and "\<forall>n. max_retries_arg = Some n \<longrightarrow> 0 \<le> n"
      and "api_function url (ext w) = (Inr result, s')"
      and "result ''error'' = None \<or> result ''error'' = Some PNone
           \<or> (\<exists>msg. result ''error'' = Some (PStr msg) \<and> \<not> has_keyword (lower msg))"
  shows "safe_api_call env platform api_function url max_retries_arg w
           = (result, snd (safe_api_call env platform api_function url max_retries_arg w))
         \<and> calls (snd (safe_api_call env platform api_function url max_retries_arg w))
             = Suc (calls w)
         \<and> ext (snd (safe_api_call env platform api_function url max_retries_arg w)) = s'"
proof -
  have "returns_no_quota_error result"
    using assms(4) by (auto simp add: returns_no_quota_error_def)
  then have r: "rate_limited result = Inr False" by (rule rate_limited_no_quota_error)
  from safe_api_call_first_attempt [where api = api_function and url = url and env = env,
      OF assms(1) resolve_max_retries_nonneg [OF assms(2)]] assms(3) r
  have "fst (safe_api_call env platform api_function url max_retries_arg w) = result"
    and "calls (snd (safe_api_call env platform api_function url max_retries_arg w)) = Suc (calls w)"
    and "ext (snd (safe_api_call env platform api_function url max_retries_arg w)) = s'"
    by simp_all
  then show ?thesis by (simp add: prod_eq_iff)
qed
theorem safe_api_call_passes_result_through_witness:
  "safe_api_call fixed_env ''x'' (scripted (\<lambda>k. Inr success_record)) post_url None (initial_world 0)
     = (success_record,
        snd (safe_api_call fixed_env ''x'' (scripted (\<lambda>k. Inr success_record)) post_url None
          (initial_world 0)))
   \<and> calls (snd (safe_api_call fixed_env ''x'' (scripted (\<lambda>k. Inr success_record)) post_url None
        (initial_world 0))) = 1"
proof -
  have ok: "\<forall>n. (None :: int option) = Some n \<longrightarrow> 0 \<le> n" by simp
  have e: "success_record ''error'' = None" by (simp add: success_record_def)
  have a: "scripted (\<lambda>k. Inr success_record) post_url (ext (initial_world (0::nat)))
             = (Inr success_record, Suc 0)"
    by (simp add: scripted_def initial_world_def)
  from safe_api_call_passes_result_through [where w = "initial_world 0" and platform = "''x''"
      and max_retries_arg = None and api_function = "scripted (\<lambda>k. Inr success_record)"
      and url = post_url and result = success_record and env = fixed_env,
      OF initial_world_known ok a] e
  show ?thesis by (simp add: initial_world_def)
qed


section \<open>Exhausted retries\<close>

text \<open>
  Claim C3. When every attempt, up to and including the last, returns a dictionary whose
  error has a quota marker, the executor returns the dictionary of the last attempt as it
  is, with the collaborator's own error text. The message
  \<open>Rate limit exceeded after N retries\<close> is produced only when the last attempt raises
  (lemma \<open>safe_api_call_exhausted_raised\<close>). At the concrete input below the collaborator
  returns the error \<open>Rate limit exceeded\<close> on every attempt on platform \<open>x\<close>, whose ceiling
  is 2, and the executor's error is that text and not the exhaustion message.
\<close>

theorem safe_api_call_exhausted_returns_last_result:
  assumes "request_timestamps w platform \<noteq> None"
      and "\<forall>n. max_retries_arg = Some n \<longrightarrow> 0 \<le> n"
      and "\<forall>k\<le>nat (resolve_max_retries platform max_retries_arg).
             \<exists>result. outcome api_function url (ext w) k = Inr result
                      \<and> rate_limited result = Inr True"
  shows "outcome api_function url (ext w) (nat (resolve_max_retries platform max_retries_arg))
           = Inr (fst (safe_api_call env platform api_function url max_retries_arg w))"
proof -
  let ?n = "nat (resolve_max_retries platform max_retries_arg)"
  from assms(3) obtain result where
    r: "outcome api_function url (ext w) ?n = Inr result" "rate_limited result = Inr True"
    by blast
  have q: "\<forall>j<?n. quota_failure (outcome api_function url (ext w) j)"
  proof (intro allI impI)
    fix j assume "j < ?n"
    with assms(3) obtain rj where "outcome api_function url (ext w) j = Inr rj"
      "rate_limited rj = Inr True"
      by (meson less_imp_le)
    then show "quota_failure (outcome api_function url (ext w) j)" by simp
  qed
  from safe_api_call_last_attempt_returned [where api = api_function and url = url and env = env,
      OF assms(1) resolve_max_retries_nonneg [OF assms(2)] q r(1)] r(2)
  show ?thesis by (simp add: r(1))
qed

theorem safe_api_call_exhausted_returns_last_result_witness:
  "dict_get (fst (safe_api_call fixed_env ''x'' (scripted limited_script) post_url None
      (initial_world 0))) ''error'' = PStr ''Rate limit exceeded''
   \<and> dict_get (fst (safe_api_call fixed_env ''x'' (scripted limited_script) post_url None
      (initial_world 0))) ''error''
     \<noteq> PStr (''Rate limit exceeded after '' @ str_int 2 @ '' retries'')"
proof -
  have ok: "\<forall>n. (None :: int option) = Some n \<longrightarrow> 0 \<le> n" by simp
  have a: "\<forall>k\<le>nat (resolve_max_retries ''x'' None).
             \<exists>result. outcome (scripted limited_script) post_url (ext (initial_world (0::nat))) k
                        = Inr result \<and> rate_limited result = Inr True"
    by (simp add: outcome_scripted limited_script_def rate_limited_def dict_get_def
        error_dict_def keyword_examples)
  from safe_api_call_exhausted_returns_last_result [where w = "initial_world 0"
      and platform = "''x''" and max_retries_arg = None
      and api_function = "scripted limited_script" and url = post_url and env = fixed_env,
      OF initial_world_known ok a]
  have "fst (safe_api_call fixed_env ''x'' (scripted limited_script) post_url None (initial_world 0))
          = error_dict post_url ''Rate limit exceeded'' ''x''"
    by (simp add: outcome_scripted limited_script_def)
  then show ?thesis by (simp add: dict_get_def error_dict_def)
qed

section \<open>Unsupported URLs\<close>

text \<open>
  Claim C7. For a URL that the classifier maps to \<open>unknown\<close>, the loop body returns the
  record \<open>Unsupported platform\<close> and leaves the world as it found it: no collaborator is
  invoked, no admission is requested and nothing sleeps. In a batch, the world that the
  URLs before it leave behind is the world the URLs after it start from, and the response
  holds, at the position of the URL, a record whose error is \<open>Unsupported platform\<close>,
  whose platform is \<open>unknown\<close>, whose url is the input URL and whose ten metric columns
  are null.
\<close>

theorem process_links_unsupported:
  assumes "detect_platform url = ''unknown''"
  shows "(\<forall>w. process_url env E url w = (unsupported_record url, w))
       \<and> links_loop env E (pre @ url # post) [] w =
           (fst (links_loop env E pre [] w) @ unsupported_record url
              # fst (links_loop env E post [] (snd (links_loop env E pre [] w))),
            snd (links_loop env E post [] (snd (links_loop env E pre [] w))))
       \<and> (\<exists>results summ w'.
            process_links env E (pre @ url # post) w = (BatchResponse results summ, w')
            \<and> length pre < length results
            \<and> results ! length pre = unsupported_record url)
       \<and> dict_get (unsupported_record url) ''error'' = PStr ''Unsupported platform''
       \<and> dict_get (unsupported_record url) ''platform'' = PStr ''unknown''
       \<and> dict_get (unsupported_record url) ''url'' = PStr url
       \<and> list_all (\<lambda>col. dict_get (unsupported_record url) col = PNone) metric_columns"
proof -
  note u = process_url_unknown [OF assms]
  have loop: "links_loop env E (pre @ url # post) [] w =
           (fst (links_loop env E pre [] w) @ unsupported_record url
              # fst (links_loop env E post [] (snd (links_loop env E pre [] w))),
            snd (links_loop env E post [] (snd (links_loop env E pre [] w))))"
    by (simp add: links_loop_append [of env E pre "url # post"] links_loop_Cons u
        del: links_loop.simps(2))
  have len: "length (fst (links_loop env E pre [] w)) = length pre"
    by (rule links_loop_length)
  have batch: "\<exists>results summ w'.
            process_links env E (pre @ url # post) w = (BatchResponse results summ, w')
            \<and> length pre < length results
            \<and> results ! length pre = unsupported_record url"
    by (simp add: process_links_results loop len nth_append to_record_unsupported)
  have step: "\<forall>w. process_url env E url w = (unsupported_record url, w)"
    by (simp add: u)
  have fields: "dict_get (unsupported_record url) ''error'' = PStr ''Unsupported platform''"
    "dict_get (unsupported_record url) ''platform'' = PStr ''unknown''"
    "dict_get (unsupported_record url) ''url'' = PStr url"
    "list_all (\<lambda>col. dict_get (unsupported_record url) col = PNone) metric_columns"
    by (simp_all add: dict_get_def unsupported_record_def metric_columns_def)
  from step loop batch fields show ?thesis by (intro conjI)
qed

theorem process_links_unsupported_witness:
  "process_url fixed_env unconfigured unknown_url (initial_world 0)
     = (unsupported_record unknown_url, initial_world 0)
   \<and> dict_get (unsupported_record unknown_url) ''error'' = PStr ''Unsupported platform''"
proof -
  have "detect_platform unknown_url = ''unknown''"
    by (simp add: detect_platform_def unknown_url_def lower_def lower_char_def)
  from process_links_unsupported [OF this, of fixed_env unconfigured "[]" "[]" "initial_world 0"]
  show ?thesis by simp
qed


section \<open>The batch summary\<close>

text \<open>
  Claim C8. In the response of a batch, the summary has an entry for exactly the values
  that occur, not null, in the platform column of the records. The entry's \<open>total\<close> is the
  number of records with that platform, its \<open>errors\<close> the number of those whose error is
  not null, and its \<open>success\<close> the difference.
\<close>

theorem process_links_summary_counts:
  assumes "process_links env E links w = (BatchResponse results summ, w')"
  shows "platform_stats summ platform =
     (if platform \<noteq> PNone \<and> platform \<in> set (map (\<lambda>r. dict_get r ''platform'') results)
      then Some \<lparr>total = length (filter (\<lambda>r. dict_get r ''platform'' = platform) results),
                 success = int (length (filter (\<lambda>r. dict_get r ''platform'' = platform) results))
                   - int (length (filter (\<lambda>r. dict_get r ''platform'' = platform
                                               \<and> dict_get r ''error'' \<noteq> PNone) results)),
                 errors = length (filter (\<lambda>r. dict_get r ''platform'' = platform
                                               \<and> dict_get r ''error'' \<noteq> PNone) results)\<rparr>
      else None)"
proof -
  from assms have ne: "links \<noteq> []" by (auto simp add: process_links_def)
  from assms process_links_results [OF ne, of env E w]
  have "platform_stats summ = platform_error_stats results" by auto
  then show ?thesis by (simp only: platform_error_stats_counts)
qed

theorem process_links_summary_counts_witness:
  "(case fst (process_links fixed_env unconfigured [post_url, unknown_url] (initial_world 0)) of
      BatchResponse results summ \<Rightarrow>
        platform_stats summ (PStr ''unknown'') = Some \<lparr>total = 1, success = 0, errors = 1\<rparr>
    | ErrorResponse msg \<Rightarrow> False)"
proof -
  let ?results = "[to_record (map_of [(''error'', PStr ''X/Twitter not configured'')]),
         unsupported_record unknown_url]"
  from process_links_summary_counts [OF unconfigured_batch, of "PStr ''unknown''"]
  show ?thesis
    by (simp add: unconfigured_batch to_record_def dict_get_def standard_columns_def
        unsupported_record_def)
qed

section \<open>Records of an unconfigured platform\<close>

text \<open>
  Claim C1. The response has one record per input URL, in input order. The url of a record
  is not always the input URL: when X was not configured, \<^verbatim>\<open>fetch_x_metrics\<close> returns
  a dictionary with the single key \<open>error\<close> (line 269), the executor passes it on, and the
  record that the data frame makes of it has a null url. The handler of the same function
  (line 306) does put the URL into its dictionary. The statement below is what the code
  does for a batch that starts with such a URL.
\<close>

theorem process_links_unconfigured_loses_url:
  assumes "''x_api'' \<notin> DRIVERS E" and "detect_platform url = ''x''"
      and "request_timestamps w ''x'' \<noteq> None"
  shows "\<exists>results summ w'.
           process_links env E (url # rest) w = (BatchResponse results summ, w')
           \<and> length results = length (url # rest)
           \<and> dict_get (results ! 0) ''url'' = PNone"
proof -
  note x = process_url_x_unconfigured [OF assms, of env]
  show ?thesis
    by (simp add: process_links_results links_loop_Cons links_loop_length x to_record_def
        dict_get_def standard_columns_def del: links_loop.simps(2))
qed

theorem process_links_unconfigured_loses_url_witness:
  "(case fst (process_links fixed_env unconfigured [post_url, unknown_url] (initial_world 0)) of
      BatchResponse results summ \<Rightarrow>
        length results = 2 \<and> dict_get (results ! 0) ''url'' = PNone
        \<and> dict_get (results ! 0) ''url'' \<noteq> PStr post_url
    | ErrorResponse msg \<Rightarrow> False)"
proof -
  have d: "''x_api'' \<notin> DRIVERS unconfigured" by (simp add: unconfigured_def)
  from process_links_unconfigured_loses_url [OF d post_url_x initial_world_known,
      of fixed_env "[unknown_url]" 0]
  show ?thesis by auto
qed


text \<open>
  Claim C5. For the same input the record has a null url and a null platform, and the
  summary, which counts by platform, has no entry for it, although \<open>total_processed\<close>
  counts it.
\<close>

theorem process_links_unconfigured_record:
  assumes "''x_api'' \<notin> DRIVERS E" and "detect_platform url = ''x''"
      and "request_timestamps w ''x'' \<noteq> None"
  shows "\<exists>r summ w'.
           process_links env E [url] w = (BatchResponse [r] summ, w')
           \<and> r ''url'' = Some PNone \<and> r ''platform'' = Some PNone
           \<and> r ''error'' = Some (PStr ''X/Twitter not configured'')
           \<and> total_processed summ = 1
           \<and> platform_stats summ = Map.empty"
proof -
  note x = process_url_x_unconfigured [OF assms, of env]
  have "platform_error_stats [to_record (map_of [(''error'', PStr ''X/Twitter not configured'')])]
          = Map.empty"
    by (rule ext)
      (simp add: platform_error_stats_counts to_record_def dict_get_def standard_columns_def)
  then show ?thesis
    by (simp add: process_links_results links_loop_Cons x to_record_def
        dict_get_def standard_columns_def del: links_loop.simps(2))
qed

theorem process_links_unconfigured_record_witness:
  "(case fst (process_links fixed_env unconfigured [post_url] (initial_world 0)) of
      BatchResponse results summ \<Rightarrow>
        map (\<lambda>r. (r ''url'', r ''platform'')) results = [(Some PNone, Some PNone)]
    | ErrorResponse msg \<Rightarrow> False)"
proof -
  have d: "''x_api'' \<notin> DRIVERS unconfigured" by (simp add: unconfigured_def)
  from process_links_unconfigured_record [OF d post_url_x initial_world_known,
      of fixed_env 0]
  show ?thesis by auto
qed


section \<open>The single-URL endpoint and the batch\<close>




end
